theory Spec2Isabelle
  imports Complex_Main
begin

section \<open>Data model\<close>

text \<open>
  A JavaScript \<^verbatim>\<open>number\<close> as far as the chart code looks at it: a finite value, one of
  the two infinities, or NaN. Finite doubles are read as the reals they denote; the code
  under study only tests them for finiteness and copies them.
\<close>

datatype jsnum = Fin real | PosInf | NegInf | NaN

text \<open>The global \<^verbatim>\<open>isFinite\<close> / \<^verbatim>\<open>Number.isFinite\<close> on a number.\<close>

fun isFinite :: "jsnum \<Rightarrow> bool" where
  "isFinite (Fin _) = True"
| "isFinite PosInf = False"
| "isFinite NegInf = False"
| "isFinite NaN = False"

text \<open>The relational operator \<^verbatim>\<open><=\<close> on numbers: every comparison with NaN is false.\<close>

fun js_le :: "jsnum \<Rightarrow> jsnum \<Rightarrow> bool" where
  "js_le (Fin a) (Fin b) = (a \<le> b)"
| "js_le NaN _ = False"
| "js_le _ NaN = False"
| "js_le NegInf _ = True"
| "js_le _ PosInf = True"
| "js_le _ _ = False"

text \<open>The relational operator \<^verbatim>\<open><\<close> on numbers; \<^verbatim>\<open>a > b\<close> is \<^verbatim>\<open>b < a\<close>.\<close>

fun js_lt :: "jsnum \<Rightarrow> jsnum \<Rightarrow> bool" where
  "js_lt (Fin a) (Fin b) = (a < b)"
| "js_lt NaN _ = False"
| "js_lt _ NaN = False"
| "js_lt PosInf _ = False"
| "js_lt _ NegInf = False"
| "js_lt _ _ = True"

text \<open>
  The two comparisons and the number \<^verbatim>\<open>0\<close> under the usual symbols, so that a test such
  as \<^verbatim>\<open>bar.time > 0\<close> is written once for every type of time. The class \<open>ord\<close> asks
  nothing of the two relations.
\<close>

instantiation jsnum :: "{zero, ord}"
begin

definition zero_jsnum :: jsnum where
  "zero_jsnum = Fin 0"

definition less_eq_jsnum :: "jsnum \<Rightarrow> jsnum \<Rightarrow> bool" where
  "less_eq_jsnum = js_le"

definition less_jsnum :: "jsnum \<Rightarrow> jsnum \<Rightarrow> bool" where
  "less_jsnum = js_lt"

instance ..

end

text \<open>\<^verbatim>\<open>x / 1000\<close> and \<^verbatim>\<open>Math.floor(x)\<close> on a number.\<close>

fun js_div1000 :: "jsnum \<Rightarrow> jsnum" where
  "js_div1000 (Fin x) = Fin (x / 1000)"
| "js_div1000 PosInf = PosInf"
| "js_div1000 NegInf = NegInf"
| "js_div1000 NaN = NaN"

fun Math_floor :: "jsnum \<Rightarrow> jsnum" where
  "Math_floor (Fin x) = Fin (of_int \<lfloor>x\<rfloor>)"
| "Math_floor PosInf = PosInf"
| "Math_floor NegInf = NegInf"
| "Math_floor NaN = NaN"

text \<open>
  \<^verbatim>\<open>type CandleData = { time: UTCTimestamp; open; high; low; close: number }\<close>.
  The record leaves the type of \<^verbatim>\<open>time\<close> open. In a candle series, \<open>CandleData\<close>,
  \<^verbatim>\<open>time\<close> is a count of whole seconds since the epoch, an integer. In a candle object
  as \<^verbatim>\<open>normalizeCandle\<close> builds it from an unchecked response, \<open>JsCandle\<close>, it is
  whatever number the arithmetic gave, NaN included. The field \<^verbatim>\<open>open\<close> is called
  \<open>openPrice\<close> here.
\<close>

record 't Candle =
  time :: 't
  openPrice :: jsnum
  high :: jsnum
  low :: jsnum
  close :: jsnum

type_synonym CandleData = "int Candle"

type_synonym JsCandle = "jsnum Candle"


section \<open>CandleStore: \<^verbatim>\<open>mergeBars\<close>\<close>

text \<open>
  A JavaScript \<^verbatim>\<open>Map\<close> keeps its entries in the order in which their keys were first
  inserted. \<^verbatim>\<open>set\<close> on a key that is present replaces the value in place; on a new key
  it appends the entry.
\<close>

fun map_set :: "('k \<times> 'v) list \<Rightarrow> 'k \<Rightarrow> 'v \<Rightarrow> ('k \<times> 'v) list" where
  "map_set [] k v = [(k, v)]"
| "map_set ((k', v') # m) k v =
     (if k' = k then (k, v) # m else (k', v') # map_set m k v)"

text \<open>\<^verbatim>\<open>Array.from(m.values())\<close>: the values in insertion order.\<close>

definition map_values :: "('k \<times> 'v) list \<Rightarrow> 'v list" where
  "map_values m = map snd m"

text \<open>
  \<^verbatim>\<open>
  const mergeBars = (newBars, existingBars) => {
    const allBars = [...newBars, ...existingBars];
    const uniqueBars = new Map();
    allBars.forEach(bar => { uniqueBars.set(bar.time, bar); });
    return Array.from(uniqueBars.values()).sort((a, b) => a.time - b.time);
  };
  \<close>
  \<^verbatim>\<open>Array.prototype.sort\<close> is stable, and so is \<open>sort_key\<close>; on integer times the
  comparator \<^verbatim>\<open>a.time - b.time\<close> is the usual order.
\<close>

definition mergeBars :: "CandleData list \<Rightarrow> CandleData list \<Rightarrow> CandleData list" where
  "mergeBars newBars existingBars =
     (let allBars = newBars @ existingBars;
          uniqueBars = foldl (\<lambda>m bar. map_set m (time bar) bar) [] allBars
      in sort_key time (map_values uniqueBars))"

text \<open>
  For the proofs: \<open>build xs\<close> is the \<^verbatim>\<open>Map\<close> after \<^verbatim>\<open>forEach\<close> has run over \<open>xs\<close>,
  and \<open>latest xs\<close> is its lookup.
\<close>

definition build :: "CandleData list \<Rightarrow> (int \<times> CandleData) list" where
  "build xs = foldl (\<lambda>m bar. map_set m (time bar) bar) [] xs"

definition latest :: "CandleData list \<Rightarrow> int \<rightharpoonup> CandleData" where
  "latest xs = map_of (build xs)"

section \<open>HistoryProvider: normalisation, validation and fetch\<close>

text \<open>
  A Binance kline \<^verbatim>\<open>[openTime, open, high, low, close, ...]\<close>: the open time is a number
  of milliseconds, the prices arrive as strings. The record leaves the type of the open
  time open: \<open>BinanceKline\<close> is a kline whose open time is an integer, \<open>JsKline\<close> a
  kline of a response that nothing has checked, with the number that its first element
  converts to, which is NaN when the element is not numeric.
\<close>

record 't Kline =
  k_openTime :: 't
  k_open :: string
  k_high :: string
  k_low :: string
  k_close :: string

type_synonym BinanceKline = "int Kline"

type_synonym JsKline = "jsnum Kline"

text \<open>
  \<^verbatim>\<open>
  const normalizeCandle = (kline) => {
    const openTime = kline[0];
    const open = parseFloat(kline[1]);
    const high = parseFloat(kline[2]);
    const low = parseFloat(kline[3]);
    const close = parseFloat(kline[4]);
    const time = Math.floor(openTime / 1000);
    if (!isFinite(open) || !isFinite(high) || !isFinite(low) || !isFinite(close) || time <= 0) {
      return null;
    }
    return { time, open, high, low, close };
  };
  \<close>
  The builtin \<^verbatim>\<open>parseFloat\<close> is a parameter. The test \<^verbatim>\<open>time <= 0\<close> is the comparison of
  the language: it is false when \<^verbatim>\<open>time\<close> is NaN.
\<close>

definition normalizeCandle :: "(string \<Rightarrow> jsnum) \<Rightarrow> JsKline \<Rightarrow> JsCandle option" where
  "normalizeCandle parseFloat kline =
     (let openTime = k_openTime kline;
          opn = parseFloat (k_open kline);
          hi = parseFloat (k_high kline);
          lo = parseFloat (k_low kline);
          cl = parseFloat (k_close kline);
          t = Math_floor (js_div1000 openTime)
      in if \<not> isFinite opn \<or> \<not> isFinite hi \<or> \<not> isFinite lo \<or> \<not> isFinite cl \<or> t \<le> 0
         then None
         else Some \<lparr>time = t, openPrice = opn, high = hi, low = lo, close = cl\<rparr>)"


text \<open>
  The validation filter that \<^verbatim>\<open>loadInitialData\<close>, \<^verbatim>\<open>loadMoreHistory\<close>,
  \<^verbatim>\<open>loadMoreRecentData\<close> and the period switch apply under the name \<^verbatim>\<open>validBars\<close>:
  \<^verbatim>\<open>bar.time > 0 && isFinite(bar.open) && isFinite(bar.high) && isFinite(bar.low) &&
  isFinite(bar.close)\<close> (the \<^verbatim>\<open>typeof\<close> tests hold for every value of the model). It is
  one definition for a series with integer times and for candle objects whose time is any
  number; on a number, \<^verbatim>\<open>bar.time > 0\<close> is false for NaN.
\<close>

definition validBars :: "('t::{zero,ord}) Candle list \<Rightarrow> 't Candle list" where
  "validBars bars =
     filter (\<lambda>bar. time bar > 0 \<and> isFinite (openPrice bar) \<and> isFinite (high bar) \<and>
                    isFinite (low bar) \<and> isFinite (close bar)) bars"

text \<open>
  What the HTTP request of \<^verbatim>\<open>fetchBinanceCandles\<close> can come back with: \<^verbatim>\<open>fetch\<close> rejects
  (network failure, or the browser giving up on the request), or a response arrives with
  its \<^verbatim>\<open>ok\<close> flag and a body. The body does not parse as JSON, parses to something that
  is not an array, or parses to an array; an element of the array that cannot be indexed
  (\<^verbatim>\<open>null\<close>) is \<open>None\<close>.
\<close>

datatype http_body = BadJson | NonArray | JsonArray "BinanceKline option list"

datatype http_outcome = FetchRejects | HttpResponse bool http_body

datatype js_exception = NetworkError | SyntaxError | TypeError

text \<open>The callback of \<^verbatim>\<open>data.map\<close> in \<^verbatim>\<open>fetchBinanceCandles\<close>; indexing \<^verbatim>\<open>null\<close> throws.\<close>

definition klineToCandle :: "(string \<Rightarrow> jsnum) \<Rightarrow> BinanceKline option \<Rightarrow> js_exception + CandleData" where
  "klineToCandle toNumber k =
     (case k of
        None \<Rightarrow> Inl TypeError
      | Some kl \<Rightarrow> Inr \<lparr>time = k_openTime kl div 1000,
                        openPrice = toNumber (k_open kl),
                        high = toNumber (k_high kl),
                        low = toNumber (k_low kl),
                        close = toNumber (k_close kl)\<rparr>)"

text \<open>\<^verbatim>\<open>Array.prototype.map\<close> with a callback that may throw: the first throw ends it.\<close>

fun map_throwing :: "('a \<Rightarrow> js_exception + 'b) \<Rightarrow> 'a list \<Rightarrow> js_exception + 'b list" where
  "map_throwing f [] = Inr []"
| "map_throwing f (x # xs) =
     (case f x of
        Inl e \<Rightarrow> Inl e
      | Inr y \<Rightarrow> (case map_throwing f xs of Inl e \<Rightarrow> Inl e | Inr ys \<Rightarrow> Inr (y # ys)))"

text \<open>
  The body of the \<^verbatim>\<open>try\<close> block of \<^verbatim>\<open>fetchBinanceCandles\<close> (chart component): the
  filter after \<^verbatim>\<open>map\<close> tests the four prices with \<^verbatim>\<open>Number.isFinite\<close> and nothing else.
  The builtin \<^verbatim>\<open>Number\<close> is the parameter \<open>toNumber\<close>.
\<close>

definition fetchBinanceCandles_try :: "(string \<Rightarrow> jsnum) \<Rightarrow> http_outcome \<Rightarrow> js_exception + CandleData list" where
  "fetchBinanceCandles_try toNumber res =
     (case res of
        FetchRejects \<Rightarrow> Inl NetworkError
      | HttpResponse ok body \<Rightarrow>
          if \<not> ok then Inr []
          else (case body of
                  BadJson \<Rightarrow> Inl SyntaxError
                | NonArray \<Rightarrow> Inr []
                | JsonArray data \<Rightarrow>
                    (case map_throwing (klineToCandle toNumber) data of
                       Inl e \<Rightarrow> Inl e
                     | Inr candles \<Rightarrow>
                         Inr (filter (\<lambda>c. isFinite (openPrice c) \<and> isFinite (high c) \<and>
                                          isFinite (low c) \<and> isFinite (close c)) candles))))"

text \<open>\<^verbatim>\<open>fetchBinanceCandles\<close>: the \<^verbatim>\<open>catch\<close> clause logs and returns the empty array.\<close>

definition fetchBinanceCandles :: "(string \<Rightarrow> jsnum) \<Rightarrow> http_outcome \<Rightarrow> CandleData list" where
  "fetchBinanceCandles toNumber res =
     (case fetchBinanceCandles_try toNumber res of Inl e \<Rightarrow> [] | Inr candles \<Rightarrow> candles)"

text \<open>
  The kline of a Binance stream message, \<^verbatim>\<open>payload.k\<close>, with the fields the handler
  reads: \<^verbatim>\<open>k.t\<close> (start time in milliseconds) and the four price strings
  \<^verbatim>\<open>k.o\<close>, \<^verbatim>\<open>k.h\<close>, \<^verbatim>\<open>k.l\<close>, \<^verbatim>\<open>k.c\<close>.
\<close>

record StreamKline =
  kt :: int
  ko :: string
  kh :: string
  kl :: string
  kc :: string

text \<open>
  \<^verbatim>\<open>ws.onmessage\<close> of \<^verbatim>\<open>connectBinance\<close> (chart component), as the function from the
  previous candle history to the next one. \<open>None\<close> is a message that does not parse or
  has no \<^verbatim>\<open>k\<close>: the handler returns without touching the history.
\<close>

definition connectBinance_onmessage ::
  "(string \<Rightarrow> jsnum) \<Rightarrow> StreamKline option \<Rightarrow> CandleData list \<Rightarrow> CandleData list" where
  "connectBinance_onmessage toNumber payload prev =
     (case payload of
        None \<Rightarrow> prev
      | Some k \<Rightarrow>
          (let candle = \<lparr>time = kt k div 1000,
                         openPrice = toNumber (ko k),
                         high = toNumber (kh k),
                         low = toNumber (kl k),
                         close = toNumber (kc k)\<rparr>
           in if \<not> isFinite (openPrice candle) \<or> \<not> isFinite (high candle) \<or>
                 \<not> isFinite (low candle) \<or> \<not> isFinite (close candle)
              then prev
              else mergeBars [candle] prev))"

section \<open>CacheLayer: \<^verbatim>\<open>getCachedBars\<close>\<close>

text \<open>\<^verbatim>\<open>type TimePeriod = "1m" | "30m" | "1h" | "1d"\<close>, and the string it is.\<close>

datatype TimePeriod = P_1m | P_30m | P_1h | P_1d

fun period_string :: "TimePeriod \<Rightarrow> string" where
  "period_string P_1m = ''1m''"
| "period_string P_30m = ''30m''"
| "period_string P_1h = ''1h''"
| "period_string P_1d = ''1d''"

text \<open>The storage key, the template \<^verbatim>\<open>`btc_chart_${symbol}_${period}`\<close>.\<close>

definition cacheKey :: "string \<Rightarrow> TimePeriod \<Rightarrow> string" where
  "cacheKey symbol period = ''btc_chart_'' @ symbol @ ''_'' @ period_string period"

text \<open>
  \<^verbatim>\<open>localStorage\<close> holds strings; a stored string is represented by what \<^verbatim>\<open>JSON.parse\<close>
  makes of it: it throws (\<open>Unparsable\<close>), or it yields the object
  \<^verbatim>\<open>{ bars, timestamp }\<close> that \<^verbatim>\<open>cacheBars\<close> wrote.
\<close>

datatype cached_value = Unparsable | Entry "CandleData list" int

type_synonym localStorage = "string \<rightharpoonup> cached_value"

text \<open>
  \<^verbatim>\<open>
  const getCachedBars = (symbol, period) => {
    try {
      const cached = localStorage.getItem(`btc_chart_${symbol}_${period}`);
      if (!cached) return [];
      const data = JSON.parse(cached);
      const cacheAge = Date.now() - data.timestamp;
      // Cache is valid for 1 hour
      if (cacheAge > 60 * 60 * 1000) {
        localStorage.removeItem(`btc_chart_${symbol}_${period}`);
        return [];
      }
      return data.bars;
    } catch (error) { return []; }
  };
  \<close>
  The clock \<^verbatim>\<open>Date.now()\<close> is the parameter \<open>now\<close>; the function returns the bars and
  the storage it leaves behind.
\<close>

definition getCachedBars ::
  "localStorage \<Rightarrow> int \<Rightarrow> string \<Rightarrow> TimePeriod \<Rightarrow> CandleData list \<times> localStorage" where
  "getCachedBars store now symbol period =
     (case store (cacheKey symbol period) of
        None \<Rightarrow> ([], store)
      | Some Unparsable \<Rightarrow> ([], store)
      | Some (Entry bars timestamp) \<Rightarrow>
          (let cacheAge = now - timestamp
           in if cacheAge > 60 * 60 * 1000
              then ([], store(cacheKey symbol period := None))
              else (bars, store)))"

section \<open>LiveStream: reconnection\<close>

text \<open>
  The two variables that the effect opening the stream closes over:
  \<^verbatim>\<open>let stopped = false; let attempt = 0;\<close>
\<close>

record Reconnect =
  attempt :: nat
  stopped :: bool

text \<open>\<^verbatim>\<open>ws.onopen = () => { attempt = 0; }\<close>\<close>

definition ws_onopen :: "Reconnect \<Rightarrow> Reconnect" where
  "ws_onopen r = r\<lparr>attempt := 0\<rparr>"

text \<open>
  \<^verbatim>\<open>
  ws.onclose = () => {
    if (stopped) return;
    attempt += 1;
    const backoff = Math.min(15000, 500 * Math.pow(2, attempt));
    setTimeout(connectBinance, backoff);
  };
  \<close>
  The result is the new state and the delay of the timer that was set, if one was.
  The handlers of \<^verbatim>\<open>connectSideSwap\<close> and of \<^verbatim>\<open>connect\<close> in the other chart variants
  are the same.
\<close>

definition ws_onclose :: "Reconnect \<Rightarrow> Reconnect \<times> nat option" where
  "ws_onclose r =
     (if stopped r then (r, None)
      else (let r' = r\<lparr>attempt := attempt r + 1\<rparr>;
                backoff = min 15000 (500 * 2 ^ attempt r')
            in (r', Some backoff)))"

section \<open>SyncController: \<^verbatim>\<open>loadMoreHistory\<close>\<close>

text \<open>
  The state that \<^verbatim>\<open>loadMoreHistory\<close> reads and writes: the React state
  \<^verbatim>\<open>candleHistory\<close> and the two refs with the loaded bounds (\<open>None\<close> is \<^verbatim>\<open>null\<close>).
\<close>

record ChartState =
  candleHistory :: "CandleData list"
  oldestLoadedTime :: "int option"
  newestLoadedTime :: "int option"

text \<open>
  \<^verbatim>\<open>loadMoreHistory(from)\<close>. The provider \<^verbatim>\<open>fetchHistory(symbol, start, end)\<close> is a
  parameter, the clock \<^verbatim>\<open>Date.now()\<close> is \<open>now\<close>. The result is the state after the state
  update has run and the range handed to \<^verbatim>\<open>fetchHistory\<close>, if it was called.
  \<^verbatim>\<open>!oldestLoadedTimeRef.current\<close> holds for \<^verbatim>\<open>null\<close> and for \<^verbatim>\<open>0\<close>.
  \<^verbatim>\<open>
    if (!oldestLoadedTimeRef.current || Number(from) >= Number(oldestLoadedTimeRef.current)) return;
    const newStartTime = Math.max(Number(from) - 7 * 24 * 60 * 60, 0) * 1000; // 1 week ago
    const endTime = Number(oldestLoadedTimeRef.current) * 1000;
    // Don't load data older than 30 days
    const thirtyDaysAgo = Date.now() - 30 * 24 * 60 * 60 * 1000;
    if (newStartTime < thirtyDaysAgo) return;
    const newBars = await fetchHistory(symbol, newStartTime, endTime);
    if (newBars.length === 0) return;
    setCandleHistory(currentHistory => {
      const mergedBars = mergeBars(newBars, currentHistory);
      if (mergedBars.length > 0) {
        const validBars = mergedBars.filter(...);
        if (validBars.length > 0) {
          oldestLoadedTimeRef.current = validBars[0].time;
          ...
          return validBars;
        }
      }
      return currentHistory;
    });
  \<close>
\<close>

definition loadMoreHistory ::
  "(int \<Rightarrow> int \<Rightarrow> CandleData list) \<Rightarrow> int \<Rightarrow> int \<Rightarrow> ChartState \<Rightarrow> ChartState \<times> (int \<times> int) option" where
  "loadMoreHistory fetchHistory now frm st =
     (case oldestLoadedTime st of
        None \<Rightarrow> (st, None)
      | Some oldest \<Rightarrow>
          if oldest = 0 \<or> frm \<ge> oldest then (st, None)
          else
            (let newStartTime = max (frm - 7 * 24 * 60 * 60) 0 * 1000;
                 endTime = oldest * 1000;
                 thirtyDaysAgo = now - 30 * 24 * 60 * 60 * 1000
             in if newStartTime < thirtyDaysAgo then (st, None)
                else
                  (let newBars = fetchHistory newStartTime endTime
                   in if length newBars = 0 then (st, Some (newStartTime, endTime))
                      else
                        (let mergedBars = mergeBars newBars (candleHistory st)
                         in if length mergedBars > 0
                            then (case validBars mergedBars of
                                    [] \<Rightarrow> (st, Some (newStartTime, endTime))
                                  | first # rest \<Rightarrow>
                                      (st\<lparr>candleHistory := first # rest,
                                          oldestLoadedTime := Some (time first)\<rparr>,
                                       Some (newStartTime, endTime)))
                            else (st, Some (newStartTime, endTime))))))"

section \<open>HistoryProvider: \<^verbatim>\<open>fetchSideSwapDailyCandles\<close>\<close>

text \<open>A row of \<^verbatim>\<open>payload.result.chart_sub.data\<close>: a date string and four numbers.\<close>

record SideSwapRow =
  d_time :: string
  d_open :: jsnum
  d_high :: jsnum
  d_low :: jsnum
  d_close :: jsnum

text \<open>
  What settles the promise of one \<^verbatim>\<open>doRequest\<close>: the \<^verbatim>\<open>WebSocket\<close> constructor throws,
  the five-second timer fires, the socket reports an error, or a message arrives. A
  message does not parse, reports that the market cannot be found, carries no data
  array, or carries the rows (a \<^verbatim>\<open>null\<close> row is \<open>None\<close>). A promise is settled by the
  first call of \<^verbatim>\<open>resolve\<close>; later calls have no effect.
\<close>

datatype ws_payload = BadMessage | CantFindMarket | MissingData | ChartData "SideSwapRow option list"

datatype ws_outcome = ConstructorThrows | TimerFired | WsError | WsMessage ws_payload

text \<open>
  The callback of \<^verbatim>\<open>data.map\<close> in \<^verbatim>\<open>doRequest\<close>. The parameter \<open>dateToSec\<close> is
  \<^verbatim>\<open>Math.floor(new Date(d.time + "T00:00:00Z").getTime() / 1000)\<close>.
\<close>

definition rowToCandle :: "(string \<Rightarrow> int) \<Rightarrow> SideSwapRow option \<Rightarrow> js_exception + CandleData" where
  "rowToCandle dateToSec d =
     (case d of
        None \<Rightarrow> Inl TypeError
      | Some row \<Rightarrow> Inr \<lparr>time = dateToSec (d_time row),
                         openPrice = d_open row,
                         high = d_high row,
                         low = d_low row,
                         close = d_close row\<rparr>)"

text \<open>
  \<^verbatim>\<open>doRequest(pair)\<close>, as the value its promise resolves to. Every handler and both
  \<^verbatim>\<open>catch\<close> clauses call \<^verbatim>\<open>resolve([])\<close>, except for a message with a data array.
\<close>

definition doRequest :: "(string \<Rightarrow> int) \<Rightarrow> ws_outcome \<Rightarrow> CandleData list" where
  "doRequest dateToSec outcome =
     (case outcome of
        ConstructorThrows \<Rightarrow> []
      | TimerFired \<Rightarrow> []
      | WsError \<Rightarrow> []
      | WsMessage BadMessage \<Rightarrow> []
      | WsMessage CantFindMarket \<Rightarrow> []
      | WsMessage MissingData \<Rightarrow> []
      | WsMessage (ChartData data) \<Rightarrow>
          (case map_throwing (rowToCandle dateToSec) data of
             Inl e \<Rightarrow> []
           | Inr candles \<Rightarrow> sort_key time candles))"

text \<open>
  What \<^verbatim>\<open>fetchSideSwapDailyCandles\<close> does that can be seen from outside: requests for
  an asset pair (base, quote) and waits.
\<close>

datatype action = Request "string \<times> string" | Wait nat

text \<open>
  The surroundings of \<^verbatim>\<open>fetchSideSwapDailyCandles\<close>: how a request for a pair ends, given
  everything done before it; what \<^verbatim>\<open>resolveSideSwapPair\<close> returns (\<open>None\<close> is
  \<^verbatim>\<open>null\<close>); and the date conversion.
\<close>

record SideSwapEnv =
  respond :: "action list \<Rightarrow> string \<times> string \<Rightarrow> ws_outcome"
  resolved :: "(string \<times> string) option"
  dateToSec :: "string \<Rightarrow> int"

text \<open>The module-level object \<^verbatim>\<open>SIDESWAP_PAIR\<close> and the actions so far.\<close>

record FetchState =
  SIDESWAP_PAIR :: "string \<times> string"
  trace :: "action list"

definition maxAttempts :: nat where
  "maxAttempts = 5"

text \<open>\<^verbatim>\<open>await doRequest(pair)\<close>, with the request recorded.\<close>

definition await_doRequest ::
  "SideSwapEnv \<Rightarrow> string \<times> string \<Rightarrow> FetchState \<Rightarrow> CandleData list \<times> FetchState" where
  "await_doRequest env pair st =
     (doRequest (dateToSec env) (respond env (trace st) pair),
      st\<lparr>trace := trace st @ [Request pair]\<rparr>)"

text \<open>
  \<^verbatim>\<open>
  const backoff = async (attempt) => {
    const delay = Math.min(4000, 500 * Math.pow(2, attempt));
    await new Promise((r) => setTimeout(r, delay));
  };
  \<close>
\<close>

definition backoff :: "nat \<Rightarrow> FetchState \<Rightarrow> FetchState" where
  "backoff att st =
     (let delay = min 4000 (500 * 2 ^ att)
      in st\<lparr>trace := trace st @ [Wait delay]\<rparr>)"

text \<open>
  The loop
  \<^verbatim>\<open>for (let attempt = 0; attempt < maxAttempts; attempt++) { ... }\<close> of
  \<^verbatim>\<open>fetchSideSwapDailyCandles\<close>, from a given value \<open>att\<close> of its variable
  \<^verbatim>\<open>attempt\<close>, and the \<^verbatim>\<open>return []\<close> after it.
\<close>

function attempts :: "SideSwapEnv \<Rightarrow> string \<Rightarrow> nat \<Rightarrow> FetchState \<Rightarrow> CandleData list \<times> FetchState" where
  "attempts env symbol att st =
     (if att < maxAttempts then
        (let st1 = (if att = 0 \<and> symbol \<noteq> []
                    then (case resolved env of
                            Some r \<Rightarrow> st\<lparr>SIDESWAP_PAIR := r\<rparr>
                          | None \<Rightarrow> st)
                    else st);
             (primary, st2) = await_doRequest env (SIDESWAP_PAIR st1) st1
         in if length primary > 0 then (primary, st2)
            else
              (let (swapped, st3) =
                     await_doRequest env (snd (SIDESWAP_PAIR st2), fst (SIDESWAP_PAIR st2)) st2
               in if length swapped > 0
                  then (swapped,
                        st3\<lparr>SIDESWAP_PAIR := (snd (SIDESWAP_PAIR st3), fst (SIDESWAP_PAIR st3))\<rparr>)
                  else attempts env symbol (att + 1) (backoff att st3)))
      else ([], st))"
  by pat_completeness auto
termination
  by (relation "measure (\<lambda>(env, symbol, att, st). maxAttempts - att)") auto

declare attempts.simps [simp del]

definition fetchSideSwapDailyCandles ::
  "SideSwapEnv \<Rightarrow> string \<Rightarrow> FetchState \<Rightarrow> CandleData list \<times> FetchState" where
  "fetchSideSwapDailyCandles env symbol st = attempts env symbol 0 st"

text \<open>For the statements below: the number of requests recorded in a state.\<close>

fun is_request :: "action \<Rightarrow> bool" where
  "is_request (Request _) = True"
| "is_request (Wait _) = False"

definition requests_made :: "FetchState \<Rightarrow> nat" where
  "requests_made st = length (filter is_request (trace st))"

section \<open>Properties of \<^verbatim>\<open>mergeBars\<close>\<close>

subsection \<open>The map that the loop builds\<close>

lemma map_of_map_set: "map_of (map_set m k v) = (map_of m)(k \<mapsto> v)"
  by (induction m) auto

lemma keys_map_set: "fst ` set (map_set m k v) = insert k (fst ` set m)"
proof -
  have "dom (map_of (map_set m k v)) = insert k (dom (map_of m))"
    by (simp add: map_of_map_set)
  then show ?thesis by (simp add: dom_map_of_conv_image_fst)
qed

lemma distinct_map_set: "distinct (map fst m) \<Longrightarrow> distinct (map fst (map_set m k v))"
  by (induction m) (auto simp: keys_map_set)

lemma build_snoc: "build (xs @ [x]) = map_set (build xs) (time x) x"
  by (simp add: build_def)

lemma distinct_build: "distinct (map fst (build xs))"
  by (induction xs rule: rev_induct) (simp_all add: build_def distinct_map_set)

lemma latest_Nil: "latest [] = Map.empty"
  by (simp add: latest_def build_def)

lemma latest_snoc: "latest (xs @ [x]) = (latest xs)(time x \<mapsto> x)"
  by (simp add: latest_def build_snoc map_of_map_set)

text \<open>Entries written later override entries written earlier.\<close>

lemma latest_append: "latest (xs @ ys) = latest xs ++ latest ys"
proof (induction ys rule: rev_induct)
  case Nil
  show ?case by (simp add: latest_Nil)
next
  case (snoc y ys)
  have "latest (xs @ ys @ [y]) = (latest (xs @ ys))(time y \<mapsto> y)"
    using latest_snoc [of "xs @ ys" y] by simp
  also have "\<dots> = (latest xs ++ latest ys)(time y \<mapsto> y)"
    by (simp only: snoc)
  also have "\<dots> = latest xs ++ (latest ys)(time y \<mapsto> y)"
    by (simp only: map_add_upd)
  also have "\<dots> = latest xs ++ latest (ys @ [y])"
    by (simp only: latest_snoc)
  finally show ?case by simp
qed

lemma latest_SomeD: "latest xs k = Some v \<Longrightarrow> v \<in> set xs \<and> time v = k"
  by (induction xs arbitrary: v rule: rev_induct)
     (auto simp: latest_Nil latest_snoc split: if_splits)

lemma dom_latest: "dom (latest xs) = time ` set xs"
proof (induction xs rule: rev_induct)
  case Nil
  show ?case by (simp add: latest_Nil)
next
  case (snoc x xs)
  have "dom (latest (xs @ [x])) = insert (time x) (dom (latest xs))"
    by (simp add: latest_snoc)
  then show ?case by (simp add: snoc)
qed

lemma time_ran_latest: "time ` ran (latest xs) = dom (latest xs)"
proof (intro set_eqI iffI)
  fix k assume "k \<in> time ` ran (latest xs)"
  then obtain v j where "latest xs j = Some v" "k = time v"
    by (auto simp: ran_def)
  then show "k \<in> dom (latest xs)"
    using latest_SomeD [of xs j v] by auto
next
  fix k assume "k \<in> dom (latest xs)"
  then obtain v where v: "latest xs k = Some v" by blast
  then have "time v = k" by (simp add: latest_SomeD)
  with v show "k \<in> time ` ran (latest xs)"
    by (auto simp: ran_def intro!: image_eqI [where x = v])
qed

lemma build_key: "(k, v) \<in> set (build xs) \<Longrightarrow> time v = k"
proof -
  assume "(k, v) \<in> set (build xs)"
  then have "latest xs k = Some v"
    by (simp add: latest_def distinct_build)
  then show ?thesis by (simp add: latest_SomeD)
qed

lemma times_build: "map time (map_values (build xs)) = map fst (build xs)"
  by (auto simp: map_values_def dest: build_key)

subsection \<open>The result of a merge\<close>

lemma set_mergeBars:
  "set (mergeBars newBars existingBars) = ran (latest (newBars @ existingBars))"
proof -
  have "set (mergeBars newBars existingBars) = snd ` set (build (newBars @ existingBars))"
    by (simp add: mergeBars_def map_values_def build_def)
  also have "\<dots> = ran (latest (newBars @ existingBars))"
    by (simp add: latest_def ran_distinct distinct_build)
  finally show ?thesis .
qed

lemma times_mergeBars:
  "time ` set (mergeBars newBars existingBars) = time ` (set newBars \<union> set existingBars)"
  by (simp add: set_mergeBars time_ran_latest dom_latest)

lemma distinct_times_mergeBars: "distinct (map time (mergeBars newBars existingBars))"
proof -
  have "distinct (map time (map_values (build (newBars @ existingBars))))"
    by (simp add: times_build distinct_build)
  then have "distinct (map_values (build (newBars @ existingBars))) \<and>
             inj_on time (set (map_values (build (newBars @ existingBars))))"
    by (simp add: distinct_map)
  then show ?thesis
    by (simp add: mergeBars_def build_def [symmetric] distinct_map)
qed

lemma sorted_times_mergeBars: "sorted (map time (mergeBars newBars existingBars))"
  by (simp add: mergeBars_def)

lemma strict_mergeBars: "sorted_wrt (<) (map time (mergeBars newBars existingBars))"
  by (simp add: strict_sorted_iff sorted_times_mergeBars distinct_times_mergeBars)

text \<open>Where the times of a list are distinct, the lookup finds each of its candles.\<close>

lemma latest_distinct:
  assumes "distinct (map time xs)"
  shows "latest xs k = Some v \<longleftrightarrow> v \<in> set xs \<and> time v = k"
proof
  assume "latest xs k = Some v"
  then show "v \<in> set xs \<and> time v = k" by (rule latest_SomeD)
next
  assume a: "v \<in> set xs \<and> time v = k"
  then have "k \<in> dom (latest xs)" by (auto simp: dom_latest)
  then obtain w where w: "latest xs k = Some w" by blast
  then have "w \<in> set xs \<and> time w = k" by (rule latest_SomeD)
  with a assms have "w = v" by (auto simp: distinct_map inj_on_def)
  with w show "latest xs k = Some v" by simp
qed

lemma ran_latest_distinct: "distinct (map time xs) \<Longrightarrow> ran (latest xs) = set xs"
  by (auto simp: ran_def latest_distinct)

text \<open>A series that is strictly increasing by time is determined by the set of its candles.\<close>

lemma strict_sorted_unique:
  fixes xs ys :: "CandleData list"
  assumes "sorted_wrt (<) (map time xs)" "sorted_wrt (<) (map time ys)" "set xs = set ys"
  shows "xs = ys"
proof -
  have "map time xs = map time ys"
    using assms by (intro sorted_distinct_set_unique) (auto simp: strict_sorted_iff)
  moreover have "inj_on time (set xs \<union> set ys)"
    using assms by (simp add: strict_sorted_iff distinct_map)
  ultimately show ?thesis by (rule map_inj_on)
qed

text \<open>
  The candle of the existing series is the one that stays: \<^verbatim>\<open>allBars\<close> lists the new
  bars first, so the existing bar with the same time is written into the map after it.
\<close>

lemma mergeBars_existing_stays:
  assumes "e \<in> set existingBars" "distinct (map time existingBars)"
  shows "e \<in> set (mergeBars newBars existingBars)"
proof -
  have "latest existingBars (time e) = Some e"
    using assms by (simp add: latest_distinct)
  then have "latest (newBars @ existingBars) (time e) = Some e"
    by (simp add: latest_append)
  then show ?thesis
    by (auto simp: set_mergeBars ran_def)
qed

lemma mergeBars_again:
  "mergeBars update (mergeBars update series) = mergeBars update series"
proof -
  let ?R = "mergeBars update series"
  have d: "distinct (map time ?R)" by (rule distinct_times_mergeBars)
  have "dom (latest update) \<subseteq> dom (latest ?R)"
    by (auto simp: dom_latest times_mergeBars)
  then have "latest update ++ latest ?R = latest ?R"
    by (intro ext) (auto simp: map_add_def split: option.splits)
  then have "set (mergeBars update ?R) = set ?R"
    by (simp add: set_mergeBars [of update ?R] latest_append ran_latest_distinct d)
  then show ?thesis
    by (intro strict_sorted_unique strict_mergeBars)
qed

text \<open>
  Claim C1 (last write wins). The claim asks that a candle of the incoming series replaces
  the existing candle with the same time. Evaluated on the example of the specification,
  \<^verbatim>\<open>mergeBars\<close> does the opposite: after the candle with close 10 at time 100 has been
  merged into the empty series, merging the candle with close 20 at time 100 leaves the
  candle with close 10 in the series.
\<close>

theorem mergeBars_keeps_existing_at_100:
  "mergeBars [\<lparr>time = 100, openPrice = Fin 20, high = Fin 20, low = Fin 20, close = Fin 20\<rparr>]
     (mergeBars [\<lparr>time = 100, openPrice = Fin 10, high = Fin 10, low = Fin 10, close = Fin 10\<rparr>] [])
   = [\<lparr>time = 100, openPrice = Fin 10, high = Fin 10, low = Fin 10, close = Fin 10\<rparr>]"
  by (simp add: mergeBars_def map_values_def)

text \<open>
  Claim C2 (ordering invariant). For all input lists, in any order and with repeated
  times, the series that \<^verbatim>\<open>mergeBars\<close> returns is strictly increasing by time and no time
  occurs twice in it; and so is the series after a first merge followed by any further
  sequence of merges.
\<close>

theorem mergeBars_strictly_increasing:
  "sorted_wrt (<) (map time (mergeBars newBars existingBars)) \<and>
   distinct (map time (mergeBars newBars existingBars)) \<and>
   sorted_wrt (<) (map time
     (foldl (\<lambda>series update. mergeBars update series) (mergeBars update0 series0) updates))"
proof (intro conjI)
  show "sorted_wrt (<) (map time (mergeBars newBars existingBars))"
    by (rule strict_mergeBars)
  show "distinct (map time (mergeBars newBars existingBars))"
    by (rule distinct_times_mergeBars)
  show "sorted_wrt (<) (map time
     (foldl (\<lambda>series update. mergeBars update series) (mergeBars update0 series0) updates))"
    by (cases updates rule: rev_cases) (simp_all add: strict_mergeBars)
qed

text \<open>
  Claim C3 (merge idempotence). Merging an update \<open>U\<close> into a series \<open>S\<close> and then merging
  the same update again gives the series of the first merge. The incoming series is the
  first argument of \<^verbatim>\<open>mergeBars\<close>, so the \<^verbatim>\<open>merge(S, U)\<close> of the specification is
  \<open>mergeBars U S\<close>.
\<close>

theorem mergeBars_idempotent:
  "mergeBars U (mergeBars U S) = mergeBars U S"
  by (rule mergeBars_again)

section \<open>Validation of records\<close>

subsection \<open>Comparisons with zero\<close>

lemma jsnum_pos_iff: "(0::jsnum) < x \<longleftrightarrow> (\<exists>r. x = Fin r \<and> 0 < r) \<or> x = PosInf"
  by (cases x) (simp_all add: less_jsnum_def zero_jsnum_def)

lemma jsnum_nonpos_iff: "x \<le> (0::jsnum) \<longleftrightarrow> (\<exists>r. x = Fin r \<and> r \<le> 0) \<or> x = NegInf"
  by (cases x) (simp_all add: less_eq_jsnum_def zero_jsnum_def)


text \<open>NaN is neither positive nor not positive: both tests fail on it.\<close>

lemma jsnum_NaN_cmp: "\<not> NaN \<le> (0::jsnum)" "\<not> (0::jsnum) < NaN"
  by (simp_all add: jsnum_pos_iff jsnum_nonpos_iff)

text \<open>
  On an open time that is an integer, \<^verbatim>\<open>Math.floor(openTime / 1000)\<close> is \<open>div\<close> on
  integers, which rounds down.
\<close>

lemma Math_floor_div1000_int:
  "Math_floor (js_div1000 (Fin (of_int n))) = Fin (of_int (n div 1000))"
proof -
  have "\<lfloor>(of_int n :: real) / of_int 1000\<rfloor> = n div 1000"
    by (rule floor_divide_of_int_eq)
  then show ?thesis by simp
qed

subsection \<open>The filter and the normalisation\<close>



text \<open>
  \<^verbatim>\<open>normalizeCandle\<close> drops a kline whose time is not positive or that has a price
  that is not finite.
\<close>

lemma normalizeCandle_rejects:
  "Math_floor (js_div1000 (k_openTime kline)) \<le> 0 \<or> \<not> isFinite (parseFloat (k_open kline)) \<or>
   \<not> isFinite (parseFloat (k_high kline)) \<or> \<not> isFinite (parseFloat (k_low kline)) \<or>
   \<not> isFinite (parseFloat (k_close kline)) \<Longrightarrow> normalizeCandle parseFloat kline = None"
  by (auto simp: normalizeCandle_def Let_def)

text \<open>It keeps a kline whose time is NaN, if the four prices are finite.\<close>

lemma normalizeCandle_NaN_time:
  assumes "k_openTime kline = NaN"
    "isFinite (parseFloat (k_open kline))" "isFinite (parseFloat (k_high kline))"
    "isFinite (parseFloat (k_low kline))" "isFinite (parseFloat (k_close kline))"
  shows "normalizeCandle parseFloat kline =
         Some \<lparr>time = NaN,
               openPrice = parseFloat (k_open kline),
               high = parseFloat (k_high kline),
               low = parseFloat (k_low kline),
               close = parseFloat (k_close kline)\<rparr>"
  using assms by (simp add: normalizeCandle_def Let_def jsnum_NaN_cmp)

text \<open>On an integer open time it is the test on the integer time.\<close>

lemma normalizeCandle_int_time:
  "k_openTime kline = Fin (of_int n) \<Longrightarrow>
   normalizeCandle parseFloat kline =
     (if \<not> isFinite (parseFloat (k_open kline)) \<or> \<not> isFinite (parseFloat (k_high kline)) \<or>
         \<not> isFinite (parseFloat (k_low kline)) \<or> \<not> isFinite (parseFloat (k_close kline)) \<or>
         n div 1000 \<le> 0
      then None
      else Some \<lparr>time = Fin (of_int (n div 1000)),
                 openPrice = parseFloat (k_open kline),
                 high = parseFloat (k_high kline),
                 low = parseFloat (k_low kline),
                 close = parseFloat (k_close kline)\<rparr>)"
proof -
  assume k: "k_openTime kline = Fin (of_int n)"
  have t: "Math_floor (js_div1000 (k_openTime kline)) = Fin (of_int (n div 1000))"
    by (simp only: k Math_floor_div1000_int)
  have le: "Fin (of_int (n div 1000)) \<le> (0::jsnum) \<longleftrightarrow> n div 1000 \<le> 0"
    by (simp add: jsnum_nonpos_iff)
  show ?thesis
    by (simp only: normalizeCandle_def Let_def t le)
qed


text \<open>What \<^verbatim>\<open>fetchBinanceCandles\<close> returns has finite prices; its time is not looked at.\<close>

lemma fetchBinanceCandles_finite:
  "cd \<in> set (fetchBinanceCandles toNumber res) \<Longrightarrow>
     isFinite (openPrice cd) \<and> isFinite (high cd) \<and> isFinite (low cd) \<and> isFinite (close cd)"
  by (auto simp: fetchBinanceCandles_def fetchBinanceCandles_try_def
           split: http_outcome.splits http_body.splits sum.splits if_splits)




text \<open>
  Claim C5 (invalid record rejection). The claim asks that a record with a time that is
  not positive never reaches the series. In the chart component neither
  \<^verbatim>\<open>fetchBinanceCandles\<close> nor the handler of the Binance stream looks at the time: a
  kline with four finite prices is returned by the fetch, and merged into an empty candle
  history by the handler, whatever its open time is.
\<close>

theorem binance_paths_ignore_time:
  "(isFinite (toNumber (k_open kline)) \<and> isFinite (toNumber (k_high kline)) \<and>
    isFinite (toNumber (k_low kline)) \<and> isFinite (toNumber (k_close kline))
    \<longrightarrow> fetchBinanceCandles toNumber (HttpResponse True (JsonArray [Some kline]))
          = [\<lparr>time = k_openTime kline div 1000,
               openPrice = toNumber (k_open kline),
               high = toNumber (k_high kline),
               low = toNumber (k_low kline),
               close = toNumber (k_close kline)\<rparr>]) \<and>
   (isFinite (toNumber (ko k)) \<and> isFinite (toNumber (kh k)) \<and>
    isFinite (toNumber (kl k)) \<and> isFinite (toNumber (kc k))
    \<longrightarrow> connectBinance_onmessage toNumber (Some k) []
          = [\<lparr>time = kt k div 1000,
               openPrice = toNumber (ko k),
               high = toNumber (kh k),
               low = toNumber (kl k),
               close = toNumber (kc k)\<rparr>])"
  by (simp add: fetchBinanceCandles_def fetchBinanceCandles_try_def klineToCandle_def
      connectBinance_onmessage_def mergeBars_def map_values_def)

text \<open>
  Claim C5 at the failing input: a kline opened at 0 ms with finite prices is returned by
  the fetch, and the same kline arriving on the stream becomes the candle history, with
  time 0.
\<close>

theorem binance_paths_keep_time_zero:
  "fetchBinanceCandles (\<lambda>s. Fin 1)
     (HttpResponse True (JsonArray
        [Some \<lparr>k_openTime = 0, k_open = ''1'', k_high = ''1'', k_low = ''1'', k_close = ''1''\<rparr>]))
     = [\<lparr>time = 0, openPrice = Fin 1, high = Fin 1, low = Fin 1, close = Fin 1\<rparr>] \<and>
   connectBinance_onmessage (\<lambda>s. Fin 1)
     (Some \<lparr>kt = 0, ko = ''1'', kh = ''1'', kl = ''1'', kc = ''1''\<rparr>) []
     = [\<lparr>time = 0, openPrice = Fin 1, high = Fin 1, low = Fin 1, close = Fin 1\<rparr>]"
  using binance_paths_ignore_time
    [where toNumber = "\<lambda>s. Fin 1"
       and kline = "\<lparr>k_openTime = 0, k_open = ''1'', k_high = ''1'', k_low = ''1'', k_close = ''1''\<rparr>"
       and k = "\<lparr>kt = 0, ko = ''1'', kh = ''1'', kl = ''1'', kc = ''1''\<rparr>"]
  by simp

section \<open>Reconnection delay\<close>

lemma ws_onclose_cap: "ws_onclose r = (r', Some d) \<Longrightarrow> d \<le> 15000"
  by (auto simp: ws_onclose_def Let_def split: if_splits)

lemma closes_state:
  "\<not> stopped r \<Longrightarrow> ((fst \<circ> ws_onclose) ^^ n) r = r\<lparr>attempt := attempt r + n\<rparr>"
  by (induction n) (simp_all add: ws_onclose_def Let_def)

lemma closes_delay:
  assumes "\<not> stopped r"
  shows "snd (ws_onclose (((fst \<circ> ws_onclose) ^^ n) r)) =
         Some (min 15000 (500 * 2 ^ (attempt r + n + 1)))"
  using assms by (simp add: closes_state) (simp add: ws_onclose_def Let_def)

text \<open>
  Claim C6, as stated, fails in its last part: after a successful connection has reset the
  counter, the delay set by the next disconnect is 1000 ms, not the base delay of 500 ms.
  The handler adds one to the counter before it computes the delay.
\<close>

theorem first_delay_after_open_not_base:
  "snd (ws_onclose (ws_onopen \<lparr>attempt = 3, stopped = False\<rparr>)) = Some 1000 \<and>
   snd (ws_onclose (ws_onopen \<lparr>attempt = 3, stopped = False\<rparr>)) \<noteq> Some 500"
  by (simp add: ws_onopen_def ws_onclose_def Let_def)

text \<open>
  Claim C6, amended. Every delay that a disconnect sets is at most 15000 ms; the delay
  set by the disconnect that follows \<open>n\<close> disconnects in a row is
  \<open>min 15000 (500 * 2 ^ (attempt + n + 1))\<close>; a successful connection resets the attempt
  counter to 0 and changes nothing else; and the first delay after it is again the first
  delay of the sequence, \<open>500 * 2 ^ 1 = 1000\<close> ms.
\<close>

theorem reconnect_delay_capped:
  "(ws_onclose r = (r', Some d) \<longrightarrow> d \<le> 15000) \<and>
   (\<not> stopped r \<longrightarrow>
      snd (ws_onclose (((fst \<circ> ws_onclose) ^^ n) r)) =
        Some (min 15000 (500 * 2 ^ (attempt r + n + 1)))) \<and>
   attempt (ws_onopen r) = 0 \<and>
   stopped (ws_onopen r) = stopped r \<and>
   (\<not> stopped r \<longrightarrow> snd (ws_onclose (ws_onopen r)) = Some 1000)"
proof (intro conjI impI)
  show "d \<le> 15000" if "ws_onclose r = (r', Some d)"
    using that by (rule ws_onclose_cap)
  show "snd (ws_onclose (((fst \<circ> ws_onclose) ^^ n) r)) =
        Some (min 15000 (500 * 2 ^ (attempt r + n + 1)))" if "\<not> stopped r"
    using that by (rule closes_delay)
  show "attempt (ws_onopen r) = 0" by (simp add: ws_onopen_def)
  show "stopped (ws_onopen r) = stopped r" by (simp add: ws_onopen_def)
  show "snd (ws_onclose (ws_onopen r)) = Some 1000" if "\<not> stopped r"
    using that by (simp add: ws_onopen_def ws_onclose_def Let_def)
qed

text \<open>
  Claim C6, amended, at concrete states: the eighth disconnect in a row is capped at
  15000 ms, the third one waits 4000 ms, and the one after a connection 1000 ms.
\<close>

theorem reconnect_delay_capped_witness:
  "ws_onclose \<lparr>attempt = 7, stopped = False\<rparr> = (\<lparr>attempt = 8, stopped = False\<rparr>, Some 15000) \<and>
   (15000::nat) \<le> 15000 \<and>
   \<not> stopped \<lparr>attempt = 0, stopped = False\<rparr> \<and>
   snd (ws_onclose (((fst \<circ> ws_onclose) ^^ 2) \<lparr>attempt = 0, stopped = False\<rparr>)) = Some 4000 \<and>
   snd (ws_onclose (ws_onopen \<lparr>attempt = 0, stopped = False\<rparr>)) = Some 1000"
  using reconnect_delay_capped
          [of "\<lparr>attempt = 7, stopped = False\<rparr>" "\<lparr>attempt = 8, stopped = False\<rparr>" 15000 0]
        reconnect_delay_capped
          [of "\<lparr>attempt = 0, stopped = False\<rparr>" "\<lparr>attempt = 1, stopped = False\<rparr>" 1000 2]
  by (simp add: ws_onclose_def Let_def)

section \<open>Cache freshness\<close>

lemma getCachedBars_Entry:
  "store (cacheKey symbol period) = Some (Entry bars timestamp) \<Longrightarrow>
     getCachedBars store now symbol period =
       (if now - timestamp > 3600000 then ([], store(cacheKey symbol period := None))
        else (bars, store))"
  by (simp add: getCachedBars_def Let_def)

text \<open>
  Claim C7 (cache freshness). For an entry that is present under the key: if
  \<open>now - timestamp\<close> exceeds 3600000 ms the read returns the empty list and removes the
  entry from the storage; otherwise it returns the stored bars and leaves the storage as
  it is.
\<close>

theorem getCachedBars_freshness:
  "store (cacheKey symbol period) = Some (Entry bars timestamp) \<Longrightarrow>
     (now - timestamp > 3600000 \<longrightarrow>
        getCachedBars store now symbol period = ([], store(cacheKey symbol period := None)) \<and>
        snd (getCachedBars store now symbol period) (cacheKey symbol period) = None) \<and>
     (\<not> now - timestamp > 3600000 \<longrightarrow>
        getCachedBars store now symbol period = (bars, store))"
  by (simp add: getCachedBars_Entry)

text \<open>
  Claim C7 at a concrete storage: an entry written at 1000 ms is returned when read at
  3601000 ms and is a miss, and is removed, when read one millisecond later.
\<close>

theorem getCachedBars_freshness_witness:
  "[''btc_chart_btcusdt_1h'' \<mapsto>
      Entry [\<lparr>time = 100, openPrice = Fin 3, high = Fin 4, low = Fin 2, close = Fin 3\<rparr>] 1000]
      (cacheKey ''btcusdt'' P_1h)
     = Some (Entry [\<lparr>time = 100, openPrice = Fin 3, high = Fin 4, low = Fin 2, close = Fin 3\<rparr>] 1000) \<and>
   getCachedBars
      [''btc_chart_btcusdt_1h'' \<mapsto>
         Entry [\<lparr>time = 100, openPrice = Fin 3, high = Fin 4, low = Fin 2, close = Fin 3\<rparr>] 1000]
      3601001 ''btcusdt'' P_1h = ([], Map.empty) \<and>
   getCachedBars
      [''btc_chart_btcusdt_1h'' \<mapsto>
         Entry [\<lparr>time = 100, openPrice = Fin 3, high = Fin 4, low = Fin 2, close = Fin 3\<rparr>] 1000]
      3601000 ''btcusdt'' P_1h =
     ([\<lparr>time = 100, openPrice = Fin 3, high = Fin 4, low = Fin 2, close = Fin 3\<rparr>],
      [''btc_chart_btcusdt_1h'' \<mapsto>
         Entry [\<lparr>time = 100, openPrice = Fin 3, high = Fin 4, low = Fin 2, close = Fin 3\<rparr>] 1000])"
proof -
  let ?bars = "[\<lparr>time = 100, openPrice = Fin 3, high = Fin 4, low = Fin 2, close = Fin 3\<rparr>]"
  let ?store = "[''btc_chart_btcusdt_1h'' \<mapsto> Entry ?bars 1000]"
  have k: "cacheKey ''btcusdt'' P_1h = ''btc_chart_btcusdt_1h''"
    by (simp add: cacheKey_def)
  have h: "?store (cacheKey ''btcusdt'' P_1h) = Some (Entry ?bars 1000)"
    by (simp add: k)
  show ?thesis
    using h
      getCachedBars_freshness
        [where store = ?store and symbol = "''btcusdt''" and period = P_1h and bars = ?bars
           and timestamp = 1000 and now = 3601001]
      getCachedBars_freshness
        [where store = ?store and symbol = "''btcusdt''" and period = P_1h and bars = ?bars
           and timestamp = 1000 and now = 3601000]
    by (simp add: k)
qed

section \<open>Failures of a fetch\<close>

text \<open>
  Claim C8 (fails-soft fetch). \<^verbatim>\<open>fetchBinanceCandles\<close> returns the empty list when the
  request is rejected (a network error, or the request given up by the browser), when the
  status is not 2xx, when the body is not JSON and when it is not an array; whatever the
  \<^verbatim>\<open>try\<close> block throws ends in the empty list. \<^verbatim>\<open>doRequest\<close> resolves to the empty list
  when the socket cannot be created, when its five-second timer fires, on a socket error,
  and on a message that does not parse, that reports a missing market or that has no data
  array. Neither function has a result other than a list of candles.
\<close>

theorem fetch_fails_soft:
  "fetchBinanceCandles toNumber FetchRejects = [] \<and>
   fetchBinanceCandles toNumber (HttpResponse False body) = [] \<and>
   fetchBinanceCandles toNumber (HttpResponse True BadJson) = [] \<and>
   fetchBinanceCandles toNumber (HttpResponse True NonArray) = [] \<and>
   (fetchBinanceCandles_try toNumber res = Inl e \<longrightarrow> fetchBinanceCandles toNumber res = []) \<and>
   doRequest toSec ConstructorThrows = [] \<and>
   doRequest toSec TimerFired = [] \<and>
   doRequest toSec WsError = [] \<and>
   doRequest toSec (WsMessage BadMessage) = [] \<and>
   doRequest toSec (WsMessage CantFindMarket) = [] \<and>
   doRequest toSec (WsMessage MissingData) = []"
  by (simp add: fetchBinanceCandles_def fetchBinanceCandles_try_def doRequest_def)

text \<open>
  Claim C8 at a concrete response: an array whose only element is \<^verbatim>\<open>null\<close> makes the
  \<^verbatim>\<open>try\<close> block throw a TypeError, and the fetch returns the empty list.
\<close>

theorem fetch_fails_soft_witness:
  "fetchBinanceCandles_try (\<lambda>s. Fin 1) (HttpResponse True (JsonArray [None])) = Inl TypeError \<and>
   fetchBinanceCandles (\<lambda>s. Fin 1) (HttpResponse True (JsonArray [None])) = []"
proof -
  have h: "fetchBinanceCandles_try (\<lambda>s. Fin 1) (HttpResponse True (JsonArray [None]))
           = Inl TypeError"
    by (simp add: fetchBinanceCandles_try_def klineToCandle_def)
  show ?thesis
    using h fetch_fails_soft [where toNumber = "\<lambda>s. Fin 1"
                and res = "HttpResponse True (JsonArray [None])" and e = TypeError]
    by simp
qed

section \<open>Backfill at the older edge\<close>

lemma loadMoreHistory_no_bound:
  "oldestLoadedTime st = None \<or> oldestLoadedTime st = Some 0 \<or>
   (\<exists>oldest. oldestLoadedTime st = Some oldest \<and> oldest \<le> frm) \<Longrightarrow>
   loadMoreHistory fetchHistory now frm st = (st, None)"
  by (auto simp: loadMoreHistory_def)

lemma loadMoreHistory_beyond_horizon:
  "oldestLoadedTime st = Some oldest \<Longrightarrow> oldest \<noteq> 0 \<Longrightarrow> frm < oldest \<Longrightarrow>
   max (frm - 604800) 0 * 1000 < now - 2592000000 \<Longrightarrow>
   loadMoreHistory fetchHistory now frm st = (st, None)"
  by (simp add: loadMoreHistory_def Let_def)

lemma loadMoreHistory_fetch:
  assumes "oldestLoadedTime st = Some oldest" "oldest \<noteq> 0" "frm < oldest"
    "\<not> max (frm - 604800) 0 * 1000 < now - 2592000000"
  shows "loadMoreHistory fetchHistory now frm st =
     (let newBars = fetchHistory (max (frm - 604800) 0 * 1000) (oldest * 1000);
          valid = validBars (mergeBars newBars (candleHistory st))
      in (if newBars = [] \<or> valid = [] then st
          else st\<lparr>candleHistory := valid, oldestLoadedTime := Some (time (hd valid))\<rparr>,
          Some (max (frm - 604800) 0 * 1000, oldest * 1000)))"
proof -
  have m: "validBars [] = []" by (simp add: validBars_def)
  show ?thesis
    using assms
    by (auto simp: loadMoreHistory_def Let_def m split: list.splits)
qed

text \<open>
  Claim C9, as stated, fails. With the oldest loaded time \<open>T0 = 1699900000\<close> and the
  request \<open>T0 - 500\<close>, about a day before the clock, the range handed to the provider
  starts at \<open>(T0 - 500 - 604800) * 1000\<close>, not at \<open>(T0 - 604800) * 1000\<close>; when the
  provider answers with one bar at \<open>T0 - 100\<close> the new oldest bound is \<open>T0 - 100\<close>, which
  is not below \<open>T0 - 500\<close>; and with the oldest loaded time 25 days before the clock the
  start of the range lies beyond the 30-day horizon and no fetch is issued at all, where
  the claim has the range capped.
\<close>

theorem loadMoreHistory_range_counterexample:
  "snd (loadMoreHistory
          (\<lambda>start end. [\<lparr>time = 1699899900, openPrice = Fin 1, high = Fin 1, low = Fin 1, close = Fin 1\<rparr>])
          1700000000000 (1699900000 - 500)
          \<lparr>candleHistory = [\<lparr>time = 1699900000, openPrice = Fin 2, high = Fin 2, low = Fin 2, close = Fin 2\<rparr>],
           oldestLoadedTime = Some 1699900000, newestLoadedTime = Some 1699900000\<rparr>)
     = Some (1699294700000, 1699900000000) \<and>
   (1699294700000 :: int) \<noteq> (1699900000 - 604800) * 1000 \<and>
   oldestLoadedTime (fst (loadMoreHistory
          (\<lambda>start end. [\<lparr>time = 1699899900, openPrice = Fin 1, high = Fin 1, low = Fin 1, close = Fin 1\<rparr>])
          1700000000000 (1699900000 - 500)
          \<lparr>candleHistory = [\<lparr>time = 1699900000, openPrice = Fin 2, high = Fin 2, low = Fin 2, close = Fin 2\<rparr>],
           oldestLoadedTime = Some 1699900000, newestLoadedTime = Some 1699900000\<rparr>))
     = Some 1699899900 \<and>
   \<not> (1699899900 :: int) < 1699900000 - 500 \<and>
   loadMoreHistory
          (\<lambda>start end. [\<lparr>time = 1697800000, openPrice = Fin 1, high = Fin 1, low = Fin 1, close = Fin 1\<rparr>])
          1700000000000 (1697840000 - 500)
          \<lparr>candleHistory = [\<lparr>time = 1697840000, openPrice = Fin 2, high = Fin 2, low = Fin 2, close = Fin 2\<rparr>],
           oldestLoadedTime = Some 1697840000, newestLoadedTime = Some 1697840000\<rparr>
     = (\<lparr>candleHistory = [\<lparr>time = 1697840000, openPrice = Fin 2, high = Fin 2, low = Fin 2, close = Fin 2\<rparr>],
           oldestLoadedTime = Some 1697840000, newestLoadedTime = Some 1697840000\<rparr>, None)"
  by (simp add: loadMoreHistory_def Let_def mergeBars_def map_values_def validBars_def)

text \<open>
  Claim C9, amended. On an older-edge event with the requested time \<open>frm\<close>: if there is no
  oldest bound (\<^verbatim>\<open>null\<close> or 0) or \<open>frm\<close> is not older than it, no fetch is issued and the
  state is unchanged. Otherwise, if \<open>max (frm - 7 days) 0\<close>, in milliseconds, lies more
  than 30 days before the clock, again no fetch is issued and the state is unchanged: the
  request is dropped, not shortened. Otherwise the provider is asked for the range from
  \<open>max (frm - 7 days) 0\<close> to the oldest bound, in milliseconds; if it returns bars and the
  merge of them with the history has valid bars, these become the history and the time of
  the first of them the oldest bound, and else the state is unchanged. For the oldest
  loaded time \<open>T0\<close> and the request \<open>T0 - 500\<close> within the horizon the range is
  \<open>[T0 - 500 - 7 days, T0)\<close>.
\<close>

theorem loadMoreHistory_older_edge:
  "(oldestLoadedTime st = None \<or> oldestLoadedTime st = Some 0 \<or>
      (\<exists>bound. oldestLoadedTime st = Some bound \<and> bound \<le> frm)
    \<longrightarrow> loadMoreHistory fetchHistory now frm st = (st, None)) \<and>
   (oldestLoadedTime st = Some oldest \<and> oldest \<noteq> 0 \<and> frm < oldest \<and>
      max (frm - 604800) 0 * 1000 < now - 2592000000
    \<longrightarrow> loadMoreHistory fetchHistory now frm st = (st, None)) \<and>
   (oldestLoadedTime st = Some oldest \<and> oldest \<noteq> 0 \<and> frm < oldest \<and>
      \<not> max (frm - 604800) 0 * 1000 < now - 2592000000
    \<longrightarrow> loadMoreHistory fetchHistory now frm st =
         (let newBars = fetchHistory (max (frm - 604800) 0 * 1000) (oldest * 1000);
              valid = validBars (mergeBars newBars (candleHistory st))
          in (if newBars = [] \<or> valid = [] then st
              else st\<lparr>candleHistory := valid, oldestLoadedTime := Some (time (hd valid))\<rparr>,
              Some (max (frm - 604800) 0 * 1000, oldest * 1000)))) \<and>
   (oldestLoadedTime st = Some T0 \<and> 605300 \<le> T0 \<and> now - 2592000000 \<le> (T0 - 605300) * 1000
    \<longrightarrow> snd (loadMoreHistory fetchHistory now (T0 - 500) st) =
          Some ((T0 - 500 - 604800) * 1000, T0 * 1000))"
proof (intro conjI impI)
  assume "oldestLoadedTime st = None \<or> oldestLoadedTime st = Some 0 \<or>
      (\<exists>bound. oldestLoadedTime st = Some bound \<and> bound \<le> frm)"
  then show "loadMoreHistory fetchHistory now frm st = (st, None)"
    by (rule loadMoreHistory_no_bound)
next
  assume "oldestLoadedTime st = Some oldest \<and> oldest \<noteq> 0 \<and> frm < oldest \<and>
      max (frm - 604800) 0 * 1000 < now - 2592000000"
  then show "loadMoreHistory fetchHistory now frm st = (st, None)"
    by (simp add: loadMoreHistory_beyond_horizon)
next
  assume "oldestLoadedTime st = Some oldest \<and> oldest \<noteq> 0 \<and> frm < oldest \<and>
      \<not> max (frm - 604800) 0 * 1000 < now - 2592000000"
  then show "loadMoreHistory fetchHistory now frm st =
         (let newBars = fetchHistory (max (frm - 604800) 0 * 1000) (oldest * 1000);
              valid = validBars (mergeBars newBars (candleHistory st))
          in (if newBars = [] \<or> valid = [] then st
              else st\<lparr>candleHistory := valid, oldestLoadedTime := Some (time (hd valid))\<rparr>,
              Some (max (frm - 604800) 0 * 1000, oldest * 1000)))"
    by (intro loadMoreHistory_fetch) simp_all
next
  assume a: "oldestLoadedTime st = Some T0 \<and> 605300 \<le> T0 \<and>
      now - 2592000000 \<le> (T0 - 605300) * 1000"
  then have m: "max (T0 - 500 - 604800) 0 = T0 - 605300" by simp
  have "loadMoreHistory fetchHistory now (T0 - 500) st =
         (let newBars = fetchHistory (max (T0 - 500 - 604800) 0 * 1000) (T0 * 1000);
              valid = validBars (mergeBars newBars (candleHistory st))
          in (if newBars = [] \<or> valid = [] then st
              else st\<lparr>candleHistory := valid, oldestLoadedTime := Some (time (hd valid))\<rparr>,
              Some (max (T0 - 500 - 604800) 0 * 1000, T0 * 1000)))"
    using a by (intro loadMoreHistory_fetch) (simp_all add: m)
  then show "snd (loadMoreHistory fetchHistory now (T0 - 500) st) =
          Some ((T0 - 500 - 604800) * 1000, T0 * 1000)"
    using a by (simp add: Let_def max_def)
qed

text \<open>
  Claim C9, amended, at concrete states, with the clock at 1700000000000 ms: a state
  without bounds; a state whose oldest bar is 25 days old, where the range would start
  beyond the horizon; and a state whose oldest bar is about a day old, where the provider
  is asked and its bar, an hour older than the oldest one, becomes the oldest bound.
\<close>

theorem loadMoreHistory_older_edge_witness:
  "loadMoreHistory (\<lambda>start end. []) 1700000000000 5
      \<lparr>candleHistory = [], oldestLoadedTime = None, newestLoadedTime = None\<rparr>
     = (\<lparr>candleHistory = [], oldestLoadedTime = None, newestLoadedTime = None\<rparr>, None) \<and>
   loadMoreHistory
      (\<lambda>start end. [\<lparr>time = 1697800000, openPrice = Fin 1, high = Fin 1, low = Fin 1, close = Fin 1\<rparr>])
      1700000000000 1697839500
      \<lparr>candleHistory = [\<lparr>time = 1697840000, openPrice = Fin 2, high = Fin 2, low = Fin 2, close = Fin 2\<rparr>],
       oldestLoadedTime = Some 1697840000, newestLoadedTime = Some 1697840000\<rparr>
     = (\<lparr>candleHistory = [\<lparr>time = 1697840000, openPrice = Fin 2, high = Fin 2, low = Fin 2, close = Fin 2\<rparr>],
         oldestLoadedTime = Some 1697840000, newestLoadedTime = Some 1697840000\<rparr>, None) \<and>
   loadMoreHistory
      (\<lambda>start end. [\<lparr>time = 1699896400, openPrice = Fin 1, high = Fin 1, low = Fin 1, close = Fin 1\<rparr>])
      1700000000000 1699899500
      \<lparr>candleHistory = [\<lparr>time = 1699900000, openPrice = Fin 2, high = Fin 2, low = Fin 2, close = Fin 2\<rparr>],
       oldestLoadedTime = Some 1699900000, newestLoadedTime = Some 1699900000\<rparr>
     = (\<lparr>candleHistory = [\<lparr>time = 1699896400, openPrice = Fin 1, high = Fin 1, low = Fin 1, close = Fin 1\<rparr>,
                          \<lparr>time = 1699900000, openPrice = Fin 2, high = Fin 2, low = Fin 2, close = Fin 2\<rparr>],
         oldestLoadedTime = Some 1699896400, newestLoadedTime = Some 1699900000\<rparr>,
        Some (1699294700000, 1699900000000))"
  using
    loadMoreHistory_older_edge [where st = "\<lparr>candleHistory = [], oldestLoadedTime = None, newestLoadedTime = None\<rparr>"
          and fetchHistory = "\<lambda>start end. []" and now = 1700000000000 and frm = 5
          and oldest = 0 and ?T0.0 = 0]
    loadMoreHistory_older_edge [where st = "\<lparr>candleHistory = [\<lparr>time = 1697840000, openPrice = Fin 2, high = Fin 2, low = Fin 2, close = Fin 2\<rparr>],
                     oldestLoadedTime = Some 1697840000, newestLoadedTime = Some 1697840000\<rparr>"
          and fetchHistory = "\<lambda>start end. [\<lparr>time = 1697800000, openPrice = Fin 1, high = Fin 1, low = Fin 1, close = Fin 1\<rparr>]"
          and now = 1700000000000 and frm = 1697839500 and oldest = 1697840000 and ?T0.0 = 0]
    loadMoreHistory_older_edge [where st = "\<lparr>candleHistory = [\<lparr>time = 1699900000, openPrice = Fin 2, high = Fin 2, low = Fin 2, close = Fin 2\<rparr>],
                     oldestLoadedTime = Some 1699900000, newestLoadedTime = Some 1699900000\<rparr>"
          and fetchHistory = "\<lambda>start end. [\<lparr>time = 1699896400, openPrice = Fin 1, high = Fin 1, low = Fin 1, close = Fin 1\<rparr>]"
          and now = 1700000000000 and frm = 1699899500 and oldest = 1699900000 and ?T0.0 = 1699900000]
  by (simp add: mergeBars_def map_values_def validBars_def Let_def)

section \<open>Daily candles: bounded retries\<close>

lemma attempts_done: "attempts env symbol 5 st = ([], st)"
  by (simp add: attempts.simps maxAttempts_def)

lemma attempts_fail_step:
  assumes "\<And>tr p. doRequest (dateToSec env) (respond env tr p) = []" "att < 5" "0 < att"
  shows "attempts env symbol att st =
         attempts env symbol (att + 1)
           (st\<lparr>trace := trace st @ [Request (SIDESWAP_PAIR st),
                                      Request (snd (SIDESWAP_PAIR st), fst (SIDESWAP_PAIR st)),
                                      Wait (min 4000 (500 * 2 ^ att))]\<rparr>)"
  using assms
  by (subst attempts.simps) (simp add: maxAttempts_def await_doRequest_def backoff_def Let_def)

lemma attempts_all_fail:
  assumes fail: "\<And>tr p. doRequest (dateToSec env) (respond env tr p) = []"
    and "0 < att" "att \<le> 5"
  shows "attempts env symbol att st =
         ([], st\<lparr>trace := trace st @
                  concat (map (\<lambda>a. [Request (SIDESWAP_PAIR st),
                                     Request (snd (SIDESWAP_PAIR st), fst (SIDESWAP_PAIR st)),
                                     Wait (min 4000 (500 * 2 ^ a))]) [att..<5])\<rparr>)"
  using assms(2,3)
proof (induction "5 - att" arbitrary: att st)
  case 0
  then have "att = 5" by simp
  then show ?case by (simp add: attempts_done)
next
  case (Suc k)
  let ?st' = "st\<lparr>trace := trace st @ [Request (SIDESWAP_PAIR st),
                                      Request (snd (SIDESWAP_PAIR st), fst (SIDESWAP_PAIR st)),
                                      Wait (min 4000 (500 * 2 ^ att))]\<rparr>"
  from Suc.hyps(2) have lt: "att < 5" by simp
  have upt: "[att..<5] = att # [att + 1..<5]"
    using lt by (simp add: upt_conv_Cons)
  have "attempts env symbol att st = attempts env symbol (att + 1) ?st'"
    using fail lt Suc.prems(1) by (rule attempts_fail_step)
  also have "\<dots> = ([], ?st'\<lparr>trace := trace ?st' @
                  concat (map (\<lambda>a. [Request (SIDESWAP_PAIR ?st'),
                                     Request (snd (SIDESWAP_PAIR ?st'), fst (SIDESWAP_PAIR ?st')),
                                     Wait (min 4000 (500 * 2 ^ a))]) [att + 1..<5])\<rparr>)"
    using Suc.hyps(2) lt by (intro Suc.hyps(1)) simp_all
  also have "\<dots> = ([], st\<lparr>trace := trace st @
                  concat (map (\<lambda>a. [Request (SIDESWAP_PAIR st),
                                     Request (snd (SIDESWAP_PAIR st), fst (SIDESWAP_PAIR st)),
                                     Wait (min 4000 (500 * 2 ^ a))]) [att..<5])\<rparr>)"
    by (simp only: upt) simp
  finally show ?case .
qed

lemma attempts_first_fail:
  assumes fail: "\<And>tr p. doRequest (dateToSec env) (respond env tr p) = []"
  shows "attempts env symbol 0 st =
     (let st1 = (if symbol \<noteq> [] then (case resolved env of Some r \<Rightarrow> st\<lparr>SIDESWAP_PAIR := r\<rparr> | None \<Rightarrow> st) else st)
      in ([], st1\<lparr>trace := trace st1 @
                  concat (map (\<lambda>a. [Request (SIDESWAP_PAIR st1),
                                     Request (snd (SIDESWAP_PAIR st1), fst (SIDESWAP_PAIR st1)),
                                     Wait (min 4000 (500 * 2 ^ a))]) [0..<5])\<rparr>))"
proof -
  define st1 where "st1 = (if symbol \<noteq> [] then (case resolved env of Some r \<Rightarrow> st\<lparr>SIDESWAP_PAIR := r\<rparr> | None \<Rightarrow> st) else st)"
  let ?st' = "st1\<lparr>trace := trace st1 @ [Request (SIDESWAP_PAIR st1),
                                      Request (snd (SIDESWAP_PAIR st1), fst (SIDESWAP_PAIR st1)),
                                      Wait (min 4000 (500 * 2 ^ (0::nat)))]\<rparr>"
  have upt: "[0..<5] = 0 # [1..<5]"
    by (simp add: upt_conv_Cons)
  have "attempts env symbol 0 st = attempts env symbol 1 ?st'"
    using fail
    by (subst attempts.simps)
       (simp add: maxAttempts_def await_doRequest_def backoff_def Let_def st1_def)
  also have "\<dots> = ([], ?st'\<lparr>trace := trace ?st' @
                  concat (map (\<lambda>a. [Request (SIDESWAP_PAIR ?st'),
                                     Request (snd (SIDESWAP_PAIR ?st'), fst (SIDESWAP_PAIR ?st')),
                                     Wait (min 4000 (500 * 2 ^ a))]) [1..<5])\<rparr>)"
    using fail by (intro attempts_all_fail) simp_all
  also have "\<dots> = ([], st1\<lparr>trace := trace st1 @
                  concat (map (\<lambda>a. [Request (SIDESWAP_PAIR st1),
                                     Request (snd (SIDESWAP_PAIR st1), fst (SIDESWAP_PAIR st1)),
                                     Wait (min 4000 (500 * 2 ^ a))]) [0..<5])\<rparr>)"
    by (simp only: upt) simp
  finally show ?thesis by (simp add: st1_def Let_def)
qed

lemma requests_made_pair [simp]: "requests_made (st\<lparr>SIDESWAP_PAIR := p\<rparr>) = requests_made st"
  by (simp add: requests_made_def)

lemma requests_made_backoff [simp]: "requests_made (backoff a st) = requests_made st"
  by (simp add: requests_made_def backoff_def)

lemma requests_made_await [simp]:
  "requests_made (snd (await_doRequest env p st)) = requests_made st + 1"
  by (simp add: requests_made_def await_doRequest_def)

lemma attempts_requests_bound:
  "att \<le> 5 \<Longrightarrow>
   requests_made (snd (attempts env symbol att st)) \<le> requests_made st + 2 * (5 - att)"
proof (induction "5 - att" arbitrary: att st)
  case 0
  then have "att = 5" by simp
  then show ?case by (simp add: attempts_done)
next
  case (Suc k)
  from Suc.hyps(2) have lt: "att < 5" by simp
  define st1 where "st1 = (if att = 0 \<and> symbol \<noteq> []
                    then (case resolved env of
                            Some r \<Rightarrow> st\<lparr>SIDESWAP_PAIR := r\<rparr>
                          | None \<Rightarrow> st)
                    else st)"
  define r1 where "r1 = await_doRequest env (SIDESWAP_PAIR st1) st1"
  define r2 where "r2 = await_doRequest env (snd (SIDESWAP_PAIR (snd r1)), fst (SIDESWAP_PAIR (snd r1))) (snd r1)"
  have n1: "requests_made st1 = requests_made st"
    by (simp add: st1_def split: option.splits)
  have n2: "requests_made (snd r1) = requests_made st + 1"
    by (simp add: r1_def n1)
  have n3: "requests_made (snd r2) = requests_made st + 2"
    by (simp add: r2_def n2)
  have unfold: "attempts env symbol att st =
      (if length (fst r1) > 0 then r1
       else if length (fst r2) > 0
            then (fst r2, (snd r2)\<lparr>SIDESWAP_PAIR := (snd (SIDESWAP_PAIR (snd r2)), fst (SIDESWAP_PAIR (snd r2)))\<rparr>)
            else attempts env symbol (att + 1) (backoff att (snd r2)))"
    using lt
    by (subst attempts.simps)
       (simp add: maxAttempts_def Let_def case_prod_beta st1_def r1_def r2_def)
  have IH: "requests_made (snd (attempts env symbol (att + 1) (backoff att (snd r2))))
     \<le> requests_made (backoff att (snd r2)) + 2 * (5 - (att + 1))"
    using Suc.hyps(2) lt by (intro Suc.hyps(1)) simp_all
  show ?case
  proof (cases "length (fst r1) > 0")
    case True
    then show ?thesis using lt by (simp add: unfold n2)
  next
    case False
    show ?thesis
    proof (cases "length (fst r2) > 0")
      case True
      with False show ?thesis using lt by (simp add: unfold n3)
    next
      case f2: False
      with False IH show ?thesis using lt by (simp add: unfold n3)
    qed
  qed
qed

text \<open>
  Claim C10 (bounded retries of the daily-candle fetch). \<^verbatim>\<open>fetchSideSwapDailyCandles\<close>
  is a total function: it returns for every behaviour of its surroundings. It makes at
  most \<open>2 * maxAttempts = 10\<close> requests. A request whose five-second timer fires resolves
  to the empty list. When every request resolves to the empty list, the result is the
  empty list and what was done is, for each attempt 0 to 4 in turn: a request for the
  pair (base, quote), a request for the swapped pair (quote, base), and a wait of
  \<open>min 4000 (500 * 2 ^ attempt)\<close> ms. The pair is \<^verbatim>\<open>SIDESWAP_PAIR\<close> as it is after the
  look-up of the market on the first attempt.
\<close>

theorem fetchSideSwapDailyCandles_bounded:
  "requests_made (snd (fetchSideSwapDailyCandles env symbol st))
     \<le> requests_made st + 2 * maxAttempts \<and>
   doRequest toSec TimerFired = [] \<and>
   ((\<forall>tr p. doRequest (dateToSec env) (respond env tr p) = []) \<longrightarrow>
      (let pair = SIDESWAP_PAIR
                    (if symbol \<noteq> []
                     then (case resolved env of Some r \<Rightarrow> st\<lparr>SIDESWAP_PAIR := r\<rparr> | None \<Rightarrow> st)
                     else st)
       in fst (fetchSideSwapDailyCandles env symbol st) = [] \<and>
          trace (snd (fetchSideSwapDailyCandles env symbol st)) =
            trace st @
            concat (map (\<lambda>att. [Request pair, Request (snd pair, fst pair),
                                 Wait (min 4000 (500 * 2 ^ att))]) [0..<maxAttempts])))"
proof (intro conjI impI)
  show "requests_made (snd (fetchSideSwapDailyCandles env symbol st))
     \<le> requests_made st + 2 * maxAttempts"
    using attempts_requests_bound [of 0 env symbol st]
    by (simp add: fetchSideSwapDailyCandles_def maxAttempts_def)
  show "doRequest toSec TimerFired = []"
    by (simp add: doRequest_def)
next
  assume "\<forall>tr p. doRequest (dateToSec env) (respond env tr p) = []"
  then have fail: "\<And>tr p. doRequest (dateToSec env) (respond env tr p) = []"
    by blast
  show "let pair = SIDESWAP_PAIR
                    (if symbol \<noteq> []
                     then (case resolved env of Some r \<Rightarrow> st\<lparr>SIDESWAP_PAIR := r\<rparr> | None \<Rightarrow> st)
                     else st)
       in fst (fetchSideSwapDailyCandles env symbol st) = [] \<and>
          trace (snd (fetchSideSwapDailyCandles env symbol st)) =
            trace st @
            concat (map (\<lambda>att. [Request pair, Request (snd pair, fst pair),
                                 Wait (min 4000 (500 * 2 ^ att))]) [0..<maxAttempts])"
    by (simp add: fetchSideSwapDailyCandles_def attempts_first_fail [OF fail] Let_def
             maxAttempts_def split: option.splits)
qed

text \<open>
  Claim C10 at a concrete run: every request times out; ten requests are made, in the
  order primary, swapped, with waits of 500, 1000, 2000, 4000 and 4000 ms, and the result
  is the empty list.
\<close>

theorem fetchSideSwapDailyCandles_bounded_witness:
  "(\<forall>tr p. doRequest (dateToSec \<lparr>respond = \<lambda>tr p. TimerFired, resolved = None, dateToSec = \<lambda>s. 0\<rparr>)
              (respond \<lparr>respond = \<lambda>tr p. TimerFired, resolved = None, dateToSec = \<lambda>s. 0\<rparr> tr p) = []) \<and>
   fetchSideSwapDailyCandles
      \<lparr>respond = \<lambda>tr p. TimerFired, resolved = None, dateToSec = \<lambda>s. 0\<rparr>
      ''btcusdt'' \<lparr>SIDESWAP_PAIR = (''base'', ''quote''), trace = []\<rparr>
   = ([], \<lparr>SIDESWAP_PAIR = (''base'', ''quote''),
          trace = [Request (''base'', ''quote''), Request (''quote'', ''base''), Wait 500,
                   Request (''base'', ''quote''), Request (''quote'', ''base''), Wait 1000,
                   Request (''base'', ''quote''), Request (''quote'', ''base''), Wait 2000,
                   Request (''base'', ''quote''), Request (''quote'', ''base''), Wait 4000,
                   Request (''base'', ''quote''), Request (''quote'', ''base''), Wait 4000]\<rparr>)"
proof -
  let ?env = "\<lparr>respond = \<lambda>tr p. TimerFired, resolved = None, dateToSec = \<lambda>s. 0\<rparr>"
  let ?st = "\<lparr>SIDESWAP_PAIR = (''base'', ''quote''), trace = []\<rparr>"
  have h: "\<forall>tr p. doRequest (dateToSec ?env) (respond ?env tr p) = []"
    by (simp add: doRequest_def)
  have p: "SIDESWAP_PAIR (snd (fetchSideSwapDailyCandles ?env ''btcusdt'' ?st)) = (''base'', ''quote'')"
    using h by (simp add: fetchSideSwapDailyCandles_def attempts_first_fail Let_def)
  have "fst (fetchSideSwapDailyCandles ?env ''btcusdt'' ?st) = [] \<and>
        trace (snd (fetchSideSwapDailyCandles ?env ''btcusdt'' ?st)) =
                  [Request (''base'', ''quote''), Request (''quote'', ''base''), Wait 500,
                   Request (''base'', ''quote''), Request (''quote'', ''base''), Wait 1000,
                   Request (''base'', ''quote''), Request (''quote'', ''base''), Wait 2000,
                   Request (''base'', ''quote''), Request (''quote'', ''base''), Wait 4000,
                   Request (''base'', ''quote''), Request (''quote'', ''base''), Wait 4000]"
    using h fetchSideSwapDailyCandles_bounded [where env = ?env and symbol = "''btcusdt''" and st = ?st]
    by (simp add: maxAttempts_def upt_conv_Cons Let_def)
  with p h show ?thesis
    by (cases "fetchSideSwapDailyCandles ?env ''btcusdt'' ?st") (auto simp: doRequest_def)
qed

end
